theory Spec2Isabelle
  imports Complex_Main
begin

section \<open>Holder statistics of an ERC-20 token: \<open>src/utils/fetch/token_stats.ts\<close>\<close>

text \<open>
  The module reads the total supply of a token contract, replays every Transfer event
  from a start block to the current block in windows of 100000 blocks into a ledger
  (a JavaScript \<open>Map\<close> from address to balance), filters and sorts the ledger, classifies
  the ten largest holders and computes distribution statistics.

  Conventions of the embedding.
  \<^item> A JavaScript \<open>number\<close> that holds a balance, a supply or a percentage is a rational
    number, and \<open>+\<close>, \<open>-\<close>, \<open>*\<close>, \<open>/\<close> are exact: the rounding of IEEE doubles is outside
    the model. Block numbers are integers.
  \<^item> A call that can throw (a constructor, a contract call, a provider call) returns
    \<open>js_error + 'a\<close>; every \<open>try\<close>/\<open>catch\<close> of the source is a case distinction.
  \<^item> \<open>null\<close> is the constructor \<open>Null\<close> of \<open>nullable\<close>.
  \<^item> A loop that does not return is the value \<open>None\<close> of the outer \<open>option\<close>.
  \<^item> \<open>console.log\<close>, \<open>console.warn\<close>, \<open>console.error\<close> and \<open>sleep\<close> have no effect on
    the values computed and are left out.
\<close>

subsection \<open>Values exchanged with the chain provider\<close>

text \<open>An exception thrown by the provider: a rate-limit answer (HTTP 429) with its
  optional retry hint in seconds, or any other error with its message.\<close>

datatype js_error = RateLimited "nat option" | Failure string

datatype 'a nullable = Null | Obj 'a

text \<open>\<open>ethers.BigNumberish\<close>: a big integer, or a value that \<open>formatUnits\<close> rejects.\<close>

datatype bignumberish = BigInt int | NotNumeric

text \<open>\<open>TransferEventArgs\<close>; a field that is \<open>undefined\<close> is \<open>None\<close>.\<close>

record TransferEventArgs =
  args_from :: "string option"
  args_to :: "string option"
  args_value :: "bignumberish option"

text \<open>What \<open>queryFilter\<close> returns: a plain \<open>Log\<close> without \<open>args\<close>, or an \<open>EventLog\<close>.\<close>

datatype event = Log | EventLog TransferEventArgs

text \<open>JavaScript truthiness of a value, as \<open>!x\<close> tests it: the big integer \<open>0n\<close> is
  falsy (and so are \<open>undefined\<close> and the empty string, handled where they are read).\<close>

fun truthy_value :: "bignumberish \<Rightarrow> bool" where
  "truthy_value (BigInt n) = (n \<noteq> 0)"
| "truthy_value NotNumeric = True"

text \<open>\<open>parseFloat(ethers.formatUnits(value, decimals))\<close>: the number \<open>value / 10^decimals\<close>;
  \<open>formatUnits\<close> throws on a value that is not numeric.\<close>

fun formatUnits :: "bignumberish \<Rightarrow> nat \<Rightarrow> js_error + rat" where
  "formatUnits (BigInt n) decimals = Inr (of_int n / 10 ^ decimals)"
| "formatUnits NotNumeric decimals = Inl (Failure ''invalid BigNumberish value'')"

subsection \<open>The ledger: \<open>holders: Map<string, number>\<close>\<close>

text \<open>A JavaScript \<open>Map\<close> keeps its keys in insertion order and \<open>entries()\<close> lists them in
  that order, so the ledger is an association list: \<open>set\<close> on a present key replaces the
  value in place, \<open>set\<close> on a new key appends.\<close>

type_synonym ledger = "(string \<times> rat) list"

fun Map_has :: "ledger \<Rightarrow> string \<Rightarrow> bool" where
  "Map_has [] k = False"
| "Map_has ((k', v) # h) k = (if k' = k then True else Map_has h k)"

fun Map_get :: "ledger \<Rightarrow> string \<Rightarrow> rat option" where
  "Map_get [] k = None"
| "Map_get ((k', v) # h) k = (if k' = k then Some v else Map_get h k)"

fun Map_set :: "ledger \<Rightarrow> string \<Rightarrow> rat \<Rightarrow> ledger" where
  "Map_set [] k v = [(k, v)]"
| "Map_set ((k', v') # h) k v = (if k' = k then (k, v) # h else (k', v') # Map_set h k v)"

text \<open>\<open>holders.get(k) || 0\<close>: \<open>undefined\<close> and \<open>0\<close> both give \<open>0\<close>.\<close>

definition get_or_0 :: "ledger \<Rightarrow> string \<Rightarrow> rat" where
  "get_or_0 h k = (case Map_get h k of None \<Rightarrow> 0 | Some v \<Rightarrow> (if v = 0 then 0 else v))"

text \<open>Lines 174 to 178 of \<open>fetchHolders\<close>: both parties get an entry, the sender is
  debited, the receiver is credited.\<close>

definition applyTransfer :: "ledger \<Rightarrow> string \<Rightarrow> string \<Rightarrow> rat \<Rightarrow> ledger" where
  "applyTransfer holders src dst v =
     (let h1 = (if \<not> Map_has holders src then Map_set holders src 0 else holders);
          h2 = (if \<not> Map_has h1 dst then Map_set h1 dst 0 else h1);
          h3 = Map_set h2 src (get_or_0 h2 src - v);
          h4 = Map_set h3 dst (get_or_0 h3 dst + v)
      in h4)"

text \<open>The body of \<open>for (const event of events)\<close>: an event without \<open>args\<close>, with a falsy
  \<open>from\<close>, \<open>to\<close> or \<open>value\<close>, or whose value does not decode, is skipped.\<close>

fun processEvent :: "nat \<Rightarrow> ledger \<Rightarrow> event \<Rightarrow> ledger" where
  "processEvent decimals holders Log = holders"
| "processEvent decimals holders (EventLog a) =
     (case (args_from a, args_to a, args_value a) of
        (Some src, Some dst, Some v) \<Rightarrow>
          if src = [] \<or> dst = [] \<or> \<not> truthy_value v then holders
          else (case formatUnits v decimals of
                  Inl err \<Rightarrow> holders
                | Inr amount \<Rightarrow> applyTransfer holders src dst amount)
      | _ \<Rightarrow> holders)"

definition processEvents :: "nat \<Rightarrow> ledger \<Rightarrow> event list \<Rightarrow> ledger" where
  "processEvents decimals holders events = foldl (processEvent decimals) holders events"

text \<open>The body of one window (lines 151 to 187): a failed \<open>queryFilter\<close> is caught and the
  loop continues with the ledger as it was.\<close>

definition processWindow ::
  "(int \<Rightarrow> int \<Rightarrow> js_error + event list) \<Rightarrow> nat \<Rightarrow> int \<Rightarrow> int \<Rightarrow> ledger \<Rightarrow> ledger" where
  "processWindow queryFilter decimals fromBlock toBlock holders =
     (case queryFilter fromBlock toBlock of
        Inl err \<Rightarrow> holders
      | Inr events \<Rightarrow> processEvents decimals holders events)"

text \<open>The loop \<open>for (fromBlock = startBlock; fromBlock <= endBlock; fromBlock += batchSize)\<close>.
  The window size is a parameter here; the source fixes it to \<open>batchSize\<close> below.  With a
  size that is not positive the loop would not return, which is the value \<open>None\<close>.\<close>

partial_function (option) scanWindows ::
  "int \<Rightarrow> (int \<Rightarrow> int \<Rightarrow> js_error + event list) \<Rightarrow> nat \<Rightarrow> int \<Rightarrow> int \<Rightarrow> ledger \<Rightarrow> ledger option"
where
  "scanWindows batch queryFilter decimals endBlock fromBlock holders =
     (if fromBlock \<le> endBlock
      then scanWindows batch queryFilter decimals endBlock (fromBlock + batch)
             (processWindow queryFilter decimals fromBlock
                (min (fromBlock + batch - 1) endBlock) holders)
      else Some holders)"

declare scanWindows.simps [code]

definition batchSize :: int where
  "batchSize = 100000"

subsection \<open>Numbers to text\<close>

text \<open>\<open>Math.round\<close>: the nearest integer, a tie going up.\<close>

definition Math_round :: "rat \<Rightarrow> rat" where
  "Math_round x = of_int \<lfloor>x + 1 / 2\<rfloor>"

text \<open>\<open>x.toFixed(2)\<close>: the string of the nearest multiple of \<open>1/100\<close>, a tie going away
  from zero. The model keeps the number that the string denotes.\<close>

definition toFixed2 :: "rat \<Rightarrow> rat" where
  "toFixed2 x =
     (if x < 0 then - (of_int \<lfloor>(- x) * 100 + 1 / 2\<rfloor> / 100)
      else of_int \<lfloor>x * 100 + 1 / 2\<rfloor> / 100)"

text \<open>The decimal digits of a natural number, for the template string of a label.\<close>

fun show_nat :: "nat \<Rightarrow> string" where
  "show_nat n =
     (if n < 10 then [''0123456789'' ! n]
      else show_nat (n div 10) @ [''0123456789'' ! (n mod 10)])"

subsection \<open>The records of the module\<close>

record Holder =
  holder :: string
  balance :: rat

datatype holder_type = Wallet | Contract | Unknown

record TopHolder =
  address :: string
  top_balance :: rat
  type_of :: holder_type

record HoldersStats =
  hs_totalSupply :: rat
  hs_topHoldersProportion :: rat
  hs_topHolders :: "TopHolder list"
  filteredHolders :: "(string \<times> rat) list"

record GroupStat =
  percentage :: string
  walletsCount :: nat
  walletsHoldingPercentage :: rat
  cumulativeBalance :: rat

record Stats =
  totalWallets :: nat
  averageBalance :: rat
  medianBalance :: rat
  groupStats :: "GroupStat list"

record TokenStats =
  totalSupply :: rat
  marketCap :: "rat option"
  topHoldersProportion :: rat
  topHolders :: "TopHolder list"

record TokenStatsResponse =
  tokenStats :: TokenStats
  stats :: Stats

text \<open>The answer of the price service: the HTTP status and
  \<open>data.market_data.market_cap.usd\<close> when it is there.\<close>

record MarketCapResponse =
  status :: int
  market_cap_usd :: "rat option"

text \<open>Everything outside the module that one run reads: the environment variable
  \<open>INFURA_KEY\<close>, the two constructors, and the answers of the contract, of the provider and
  of the price service. \<open>queryFilter env fromBlock toBlock\<close> is the answer to the one request
  that the loop issues for the window \<open>[fromBlock, toBlock]\<close>.\<close>

record chain_env =
  infuraKey :: "string option"
  newProvider :: "js_error + unit"
  newContract :: "string \<Rightarrow> js_error + unit"
  totalSupply_call :: "js_error + int"
  getBlockNumber :: "js_error + int"
  queryFilter :: "int \<Rightarrow> int \<Rightarrow> js_error + event list"
  getCode :: "string \<Rightarrow> js_error + string"
  axios_get :: "string \<Rightarrow> js_error + MarketCapResponse"

subsection \<open>\<open>fetchMarketCap\<close>\<close>

definition fetchMarketCap :: "chain_env \<Rightarrow> string \<Rightarrow> rat option" where
  "fetchMarketCap env tokenSymbol =
     (case axios_get env tokenSymbol of
        Inl err \<Rightarrow> None
      | Inr response \<Rightarrow> if status response \<noteq> 200 then None else market_cap_usd response)"

subsection \<open>\<open>fetchHolders\<close>\<close>

definition minBalanceThreshold :: rat where
  "minBalanceThreshold = 1 / 100"

text \<open>\<open>Array.from(holders.entries()).filter(...).sort((a, b) => b[1] - a[1])\<close>: the entries
  above the threshold, in descending order of balance; the sort is stable.\<close>

definition filterHolders :: "ledger \<Rightarrow> (string \<times> rat) list" where
  "filterHolders holders =
     sort_key (\<lambda>(a, b). - b) (filter (\<lambda>(a, b). b > minBalanceThreshold) holders)"

text \<open>The callback of \<open>filteredHolders.slice(0, 10).map\<close>: a failed \<open>getCode\<close> gives the
  type \<open>unknown\<close>.\<close>

definition classify :: "chain_env \<Rightarrow> string \<times> rat \<Rightarrow> TopHolder" where
  "classify env entry =
     (case getCode env (fst entry) of
        Inl err \<Rightarrow> \<lparr>address = fst entry, top_balance = snd entry, type_of = Unknown\<rparr>
      | Inr code \<Rightarrow> \<lparr>address = fst entry, top_balance = snd entry,
                     type_of = (if code \<noteq> ''0x'' then Contract else Wallet)\<rparr>)"

text \<open>Lines 190 to 229: what \<open>fetchHolders\<close> builds from the total supply and the ledger
  once the loop has returned.\<close>

definition holdersStats :: "chain_env \<Rightarrow> rat \<Rightarrow> ledger \<Rightarrow> HoldersStats" where
  "holdersStats env supply holders =
     (let filtered = filterHolders holders;
          top = map (classify env) (take 10 filtered);
          totalTopHoldersBalance = sum_list (map top_balance top);
          proportion = (if supply > 0 then (totalTopHoldersBalance / supply) * 100 else 0)
      in if length filtered = 0
         then \<lparr>hs_totalSupply = supply, hs_topHoldersProportion = 0,
               hs_topHolders = [], filteredHolders = []\<rparr>
         else \<lparr>hs_totalSupply = supply, hs_topHoldersProportion = toFixed2 proportion,
               hs_topHolders = top, filteredHolders = filtered\<rparr>)"

text \<open>\<open>fetchHolders\<close>. Each early \<open>return null\<close> of the source is a \<open>Some Null\<close> here, in the
  order of the source; \<open>None\<close> can only come from the loop. The ABI is passed through to
  the contract constructor and read nowhere else, so it is part of \<open>newContract\<close>.\<close>

definition fetchHolders ::
  "chain_env \<Rightarrow> string \<Rightarrow> int \<Rightarrow> nat \<Rightarrow> HoldersStats nullable option" where
  "fetchHolders env tokenAddress startBlock decimals =
     (if infuraKey env = None \<or> infuraKey env = Some [] then Some Null
      else case newProvider env of Inl err \<Rightarrow> Some Null | Inr provider \<Rightarrow>
       (case newContract env tokenAddress of Inl err \<Rightarrow> Some Null | Inr tokenContract \<Rightarrow>
        (case totalSupply_call env of Inl err \<Rightarrow> Some Null | Inr supply \<Rightarrow>
         (case formatUnits (BigInt supply) decimals of Inl err \<Rightarrow> Some Null | Inr units \<Rightarrow>
          (case getBlockNumber env of Inl err \<Rightarrow> Some Null | Inr endBlock \<Rightarrow>
           (case scanWindows batchSize (queryFilter env) decimals endBlock startBlock [] of
              None \<Rightarrow> None
            | Some holders \<Rightarrow> Some (Obj (holdersStats env (Math_round units) holders))))))))"

subsection \<open>\<open>calculateStats\<close>\<close>

text \<open>The table \<open>walletGroups\<close>: \<open>(percentage, rangeStart, rangeEnd)\<close>.\<close>

definition walletGroups :: "(nat \<times> nat \<times> nat) list" where
  "walletGroups = [(10, 0, 10), (25, 10, 25), (50, 25, 50), (80, 50, 80)]"

text \<open>\<open>Math.floor((range / 100) * totalWallets)\<close>.\<close>

definition rangeIndex :: "nat \<Rightarrow> nat \<Rightarrow> nat" where
  "rangeIndex r n = nat \<lfloor>(of_nat r / 100 :: rat) * of_nat n\<rfloor>"

text \<open>\<open>xs.slice(i, j)\<close> for indices that are not negative.\<close>

definition slice :: "'a list \<Rightarrow> nat \<Rightarrow> nat \<Rightarrow> 'a list" where
  "slice xs i j = take (j - i) (drop i xs)"

text \<open>\<open>walletsInRange\<close> of one group, on the sorted array.\<close>

definition walletsInRange :: "Holder list \<Rightarrow> nat \<times> nat \<times> nat \<Rightarrow> Holder list" where
  "walletsInRange holdersArray g =
     (case g of (pct, rangeStart, rangeEnd) \<Rightarrow>
        slice holdersArray (rangeIndex rangeStart (length holdersArray))
                           (rangeIndex rangeEnd (length holdersArray)))"

definition groupStat :: "rat \<Rightarrow> Holder list \<Rightarrow> nat \<times> nat \<times> nat \<Rightarrow> GroupStat" where
  "groupStat totalTokens holdersArray g =
     (case g of (pct, rangeStart, rangeEnd) \<Rightarrow>
        let inRange = walletsInRange holdersArray g;
            cumulative = sum_list (map balance inRange)
        in \<lparr>percentage = show_nat rangeStart @ ''-'' @ show_nat rangeEnd @ ''%'',
            walletsCount = length inRange,
            walletsHoldingPercentage =
              (if totalTokens > 0 then (cumulative / totalTokens) * 100 else 0),
            cumulativeBalance = toFixed2 cumulative\<rparr>)"

text \<open>\<open>holdersArray.sort((a, b) => b.balance - a.balance)\<close>.\<close>

definition sortHolders :: "Holder list \<Rightarrow> Holder list" where
  "sortHolders holdersArray = sort_key (\<lambda>h. - balance h) holdersArray"

definition calculateStats :: "Holder list \<Rightarrow> Stats" where
  "calculateStats holdersArray =
     (let totalTokens = sum_list (map balance holdersArray);
          sorted = sortHolders holdersArray;
          n = length sorted;
          average = (if n > 0 then totalTokens / of_nat n else 0);
          middleIndex = n div 2;
          median = (if n = 0 then 0
                    else if n mod 2 = 0
                    then (balance (sorted ! (middleIndex - 1)) + balance (sorted ! middleIndex)) / 2
                    else balance (sorted ! middleIndex))
      in \<lparr>totalWallets = n,
          averageBalance = toFixed2 average,
          medianBalance = toFixed2 median,
          groupStats = map (groupStat totalTokens sorted) walletGroups\<rparr>)"

subsection \<open>\<open>getTokenStats\<close>\<close>

text \<open>Lines 302 to 322: the response assembled from the result of \<open>fetchHolders\<close>.\<close>

definition buildResponse :: "chain_env \<Rightarrow> string \<Rightarrow> HoldersStats \<Rightarrow> TokenStatsResponse" where
  "buildResponse env tokenSymbol hs =
     (let holdersArray = map (\<lambda>(a, b). \<lparr>holder = a, balance = b\<rparr>) (filteredHolders hs);
          cap = fetchMarketCap env tokenSymbol;
          st = calculateStats holdersArray
      in \<lparr>tokenStats = \<lparr>totalSupply = hs_totalSupply hs, marketCap = cap,
                         topHoldersProportion = hs_topHoldersProportion hs,
                         topHolders = hs_topHolders hs\<rparr>,
          stats = st\<rparr>)"

text \<open>No call in the body throws in this model (each is caught where it is made), so the
  \<open>catch\<close> of \<open>getTokenStats\<close> has no branch of its own.\<close>

definition getTokenStats ::
  "chain_env \<Rightarrow> string \<Rightarrow> string \<Rightarrow> int \<Rightarrow> nat \<Rightarrow> TokenStatsResponse nullable option" where
  "getTokenStats env tokenSymbol tokenAddress startBlock decimals =
     (case fetchHolders env tokenAddress startBlock decimals of
        None \<Rightarrow> None
      | Some Null \<Rightarrow> Some Null
      | Some (Obj hs) \<Rightarrow> Some (Obj (buildResponse env tokenSymbol hs)))"

subsection \<open>Notions used to state the properties\<close>


text \<open>The event data of a chain: every event with the number of its block, in the order
  of the chain. A provider that answers every request from it returns the events of the
  blocks \<open>fromBlock..toBlock\<close>, in that order.\<close>

type_synonym chain_log = "(int \<times> event) list"

definition eventsIn :: "chain_log \<Rightarrow> int \<Rightarrow> int \<Rightarrow> event list" where
  "eventsIn chain fromBlock toBlock =
     map snd (filter (\<lambda>(b, e). fromBlock \<le> b \<and> b \<le> toBlock) chain)"

definition chainLogs :: "chain_log \<Rightarrow> int \<Rightarrow> int \<Rightarrow> js_error + event list" where
  "chainLogs chain fromBlock toBlock = Inr (eventsIn chain fromBlock toBlock)"

text \<open>A provider whose failed answers are replaced by empty answers.\<close>

definition absorbErrors ::
  "(int \<Rightarrow> int \<Rightarrow> js_error + event list) \<Rightarrow> int \<Rightarrow> int \<Rightarrow> js_error + event list" where
  "absorbErrors q fromBlock toBlock =
     (case q fromBlock toBlock of Inl err \<Rightarrow> Inr [] | Inr events \<Rightarrow> Inr events)"

text \<open>The credential is there and the two constructors, the total supply and the block
  height succeed: none of the early \<open>return null\<close> of \<open>fetchHolders\<close> is taken.\<close>

definition providerReady :: "chain_env \<Rightarrow> string \<Rightarrow> bool" where
  "providerReady env tokenAddress =
     (infuraKey env \<noteq> None \<and> infuraKey env \<noteq> Some []
      \<and> \<not> isl (newProvider env) \<and> \<not> isl (newContract env tokenAddress)
      \<and> \<not> isl (totalSupply_call env) \<and> \<not> isl (getBlockNumber env))"

subsection \<open>Concrete chains and environments\<close>

text \<open>A transfer event and the zero address that mints.\<close>

definition transfer :: "string \<Rightarrow> string \<Rightarrow> int \<Rightarrow> event" where
  "transfer src dst n =
     EventLog \<lparr>args_from = Some src, args_to = Some dst, args_value = Some (BigInt n)\<rparr>"

definition zeroAddress :: string where
  "zeroAddress = ''0x0000000000000000000000000000000000000000''"

text \<open>An environment that answers from a chain: the key is set, the constructors
  succeed, every address is a wallet and the price service answers 200 without a price.\<close>

definition chainEnv :: "int \<Rightarrow> int \<Rightarrow> (int \<Rightarrow> int \<Rightarrow> js_error + event list) \<Rightarrow> chain_env" where
  "chainEnv supply height q =
     \<lparr>infuraKey = Some ''key'', newProvider = Inr (), newContract = (\<lambda>a. Inr ()),
      totalSupply_call = Inr supply, getBlockNumber = Inr height, queryFilter = q,
      getCode = (\<lambda>a. Inr ''0x''),
      axios_get = (\<lambda>s. Inr \<lparr>status = 200, market_cap_usd = None\<rparr>)\<rparr>"

text \<open>The chain of the three-event scenario, spread over two million blocks.\<close>

definition scenarioChain :: chain_log where
  "scenarioChain =
     [(5, transfer zeroAddress ''A'' 1000),
      (1000000, transfer ''A'' ''B'' 400),
      (1999999, transfer ''B'' ''C'' 100)]"

text \<open>A chain with one mint of 125 base units: with two decimals the only holder has
  1.25 tokens.\<close>

definition mintChain :: chain_log where
  "mintChain = [(1, transfer zeroAddress ''A'' 125)]"

text \<open>The group statistics when no bucket holds a wallet.\<close>

definition noBuckets :: "GroupStat list" where
  "noBuckets =
     [\<lparr>percentage = ''0-10%'', walletsCount = 0, walletsHoldingPercentage = 0,
       cumulativeBalance = 0\<rparr>,
      \<lparr>percentage = ''10-25%'', walletsCount = 0, walletsHoldingPercentage = 0,
       cumulativeBalance = 0\<rparr>,
      \<lparr>percentage = ''25-50%'', walletsCount = 0, walletsHoldingPercentage = 0,
       cumulativeBalance = 0\<rparr>,
      \<lparr>percentage = ''50-80%'', walletsCount = 0, walletsHoldingPercentage = 0,
       cumulativeBalance = 0\<rparr>]"

text \<open>The report of a scan of that chain, for a given total supply and top-10 percentage.\<close>

definition mintReport :: "rat \<Rightarrow> rat \<Rightarrow> TokenStatsResponse" where
  "mintReport supply proportion =
     \<lparr>tokenStats =
        \<lparr>totalSupply = supply, marketCap = None, topHoldersProportion = proportion,
         topHolders = [\<lparr>address = ''A'', top_balance = 5 / 4, type_of = Wallet\<rparr>]\<rparr>,
      stats =
        \<lparr>totalWallets = 1, averageBalance = 5 / 4, medianBalance = 5 / 4,
         groupStats = noBuckets\<rparr>\<rparr>"

text \<open>The environment of the three-event scenario: a total supply of 1000 and a chain
  height of 2000000.\<close>

definition scenarioEnv :: chain_env where
  "scenarioEnv = chainEnv 1000 2000000 (chainLogs scenarioChain)"

text \<open>A chain whose only transfer is one base unit: with two decimals the receiver holds
  exactly the dust threshold.\<close>

definition dustChain :: chain_log where
  "dustChain = [(1, transfer zeroAddress ''A'' 1)]"


text \<open>A chain with a mint in the first window of 100000 blocks and a transfer in the
  second, a provider that answers from it, and one whose request for the first window
  fails.\<close>

definition twoWindowChain :: chain_log where
  "twoWindowChain =
     [(5, transfer zeroAddress ''A'' 1000), (100001, transfer ''A'' ''B'' 400)]"

definition wholeEnv :: chain_env where
  "wholeEnv = chainEnv 1000 150000 (chainLogs twoWindowChain)"

definition flakyEnv :: chain_env where
  "flakyEnv =
     chainEnv 1000 150000
       (\<lambda>fromBlock toBlock.
          if fromBlock = 0 then Inl (Failure ''timeout'')
          else chainLogs twoWindowChain fromBlock toBlock)"

section \<open>Properties\<close>

subsection \<open>The ledger\<close>








lemma processEvents_append:
  "processEvents d h (xs @ ys) = processEvents d (processEvents d h xs) ys"
  by (simp add: processEvents_def)

subsection \<open>The loop over the windows\<close>

lemma scan_done: "\<not> f \<le> e \<Longrightarrow> scanWindows b q d e f h = Some h"
  by (subst scanWindows.simps) simp

lemma scan_step:
  "f \<le> e \<Longrightarrow>
   scanWindows b q d e f h =
   scanWindows b q d e (f + b) (processWindow q d f (min (f + b - 1) e) h)"
  by (subst scanWindows.simps) simp

text \<open>With a positive window size the loop returns: the distance to \<open>endBlock\<close> shrinks.\<close>

lemma scanWindows_total:
  assumes "0 < b"
  shows "\<exists>h'. scanWindows b q d e f h = Some h'"
proof (induction "nat (e + 1 - f)" arbitrary: f h rule: less_induct)
  case less
  show ?case
  proof (cases "f \<le> e")
    case True
    have "nat (e + 1 - (f + b)) < nat (e + 1 - f)"
      using True assms by linarith
    from less[OF this] show ?thesis
      using True by (simp add: scan_step)
  next
    case False
    then show ?thesis by (simp add: scan_done)
  qed
qed


subsection \<open>Windows over the event data of a chain\<close>

lemma eventsIn_empty_range: "t < f \<Longrightarrow> eventsIn chain f t = []"
  by (induction chain) (auto simp: eventsIn_def)

lemma eventsIn_all_above:
  "\<forall>x \<in> set chain. m < fst x \<Longrightarrow> eventsIn chain f m = []"
  by (induction chain) (auto simp: eventsIn_def)

lemma eventsIn_from_below:
  "\<forall>x \<in> set chain. f' \<le> fst x \<Longrightarrow> f \<le> f' \<Longrightarrow> eventsIn chain f' e = eventsIn chain f e"
  by (induction chain) (auto simp: eventsIn_def)

text \<open>Two adjacent block ranges of a chain in block order give the range that joins them.\<close>

lemma eventsIn_split:
  "sorted (map fst chain) \<Longrightarrow> f \<le> m + 1 \<Longrightarrow> m \<le> e \<Longrightarrow>
   eventsIn chain f m @ eventsIn chain (m + 1) e = eventsIn chain f e"
proof (induction chain)
  case Nil
  then show ?case by (simp add: eventsIn_def)
next
  case (Cons x chain)
  obtain b ev where x: "x = (b, ev)" by (cases x)
  have above: "\<forall>y \<in> set chain. b \<le> fst y"
    using Cons.prems(1) x by auto
  have IH: "eventsIn chain f m @ eventsIn chain (m + 1) e = eventsIn chain f e"
    using Cons by simp
  show ?case
  proof (cases "b \<le> m")
    case True
    then show ?thesis
      using IH Cons.prems x by (auto simp: eventsIn_def)
  next
    case False
    have none: "eventsIn (x # chain) f m = []"
      using False above x by (intro eventsIn_all_above) auto
    have same: "eventsIn (x # chain) (m + 1) e = eventsIn (x # chain) f e"
      using False above x Cons.prems(2) by (intro eventsIn_from_below) auto
    show ?thesis by (simp add: none same)
  qed
qed

text \<open>Against a provider that answers from a chain, the loop replays the events of
  \<open>fromBlock..endBlock\<close> once, in the order of the chain, whatever the window size.\<close>

lemma scanWindows_chainLogs:
  assumes "sorted (map fst chain)" "0 < b"
  shows "scanWindows b (chainLogs chain) d e f h
         = Some (processEvents d h (eventsIn chain f e))"
proof (induction "nat (e + 1 - f)" arbitrary: f h rule: less_induct)
  case less
  show ?case
  proof (cases "f \<le> e")
    case True
    let ?t = "min (f + b - 1) e"
    let ?h1 = "processWindow (chainLogs chain) d f ?t h"
    have m: "nat (e + 1 - (f + b)) < nat (e + 1 - f)"
      using True assms by linarith
    have h1: "?h1 = processEvents d h (eventsIn chain f ?t)"
      by (simp add: processWindow_def chainLogs_def)
    have joined: "eventsIn chain f ?t @ eventsIn chain (f + b) e = eventsIn chain f e"
    proof (cases "f + b - 1 \<le> e")
      case True
      then have "?t = f + b - 1" by simp
      moreover have "eventsIn chain f (f + b - 1) @ eventsIn chain ((f + b - 1) + 1) e
                     = eventsIn chain f e"
        using assms True by (intro eventsIn_split) auto
      ultimately show ?thesis by simp
    next
      case False
      then have "?t = e" "e < f + b" by auto
      then show ?thesis by (simp add: eventsIn_empty_range)
    qed
    have "scanWindows b (chainLogs chain) d e f h
          = scanWindows b (chainLogs chain) d e (f + b) ?h1"
      using True by (rule scan_step)
    also have "\<dots> = Some (processEvents d ?h1 (eventsIn chain (f + b) e))"
      using less[OF m] .
    also have "\<dots> = Some (processEvents d h (eventsIn chain f e))"
      by (simp only: h1 processEvents_append[symmetric] joined)
    finally show ?thesis .
  next
    case False
    then show ?thesis
      by (simp add: scan_done eventsIn_empty_range processEvents_def)
  qed
qed

subsection \<open>Conservation\<close>


subsection \<open>Batching\<close>

text \<open>
  Claim C8. Given the same event data (a chain in block order, and a provider that
  answers every window from it), scanning a block range with one window size and with
  another gives the same final ledger, and that ledger is the replay of the events of
  the whole range: batching only partitions the work.
\<close>

theorem batch_equivalence:
  assumes "sorted (map fst chain)" and "0 < b1" and "0 < b2"
  shows "scanWindows b1 (chainLogs chain) decimals endBlock startBlock []
         = scanWindows b2 (chainLogs chain) decimals endBlock startBlock []
       \<and> scanWindows b1 (chainLogs chain) decimals endBlock startBlock []
         = Some (processEvents decimals [] (eventsIn chain startBlock endBlock))"
  using assms by (simp add: scanWindows_chainLogs)

text \<open>The instance of the specification: the range \<open>[0, 2000000]\<close> in one window of
  2000001 blocks and in windows of 1000000 blocks.\<close>

theorem batch_equivalence_witness:
  "sorted (map fst scenarioChain) \<and> (0::int) < 2000001 \<and> (0::int) < 1000000
   \<and> scanWindows 2000001 (chainLogs scenarioChain) 0 2000000 0 []
     = scanWindows 1000000 (chainLogs scenarioChain) 0 2000000 0 []
   \<and> scanWindows 2000001 (chainLogs scenarioChain) 0 2000000 0 []
     = Some [(zeroAddress, - 1000), (''A'', 600), (''B'', 300), (''C'', 100)]"
proof -
  have s: "sorted (map fst scenarioChain)"
    by (simp add: scenarioChain_def)
  have v: "processEvents 0 [] (eventsIn scenarioChain 0 2000000)
           = [(zeroAddress, - 1000), (''A'', 600), (''B'', 300), (''C'', 100)]"
    by code_simp
  have p1: "(0::int) < 2000001" and p2: "(0::int) < 1000000"
    by simp_all
  note eq = batch_equivalence[OF s p1 p2, of 0 2000000 0, unfolded v]
  from eq have a: "scanWindows 2000001 (chainLogs scenarioChain) 0 2000000 0 []
                   = scanWindows 1000000 (chainLogs scenarioChain) 0 2000000 0 []"
    by (rule conjunct1)
  from eq have b: "scanWindows 2000001 (chainLogs scenarioChain) 0 2000000 0 []
                   = Some [(zeroAddress, - 1000), (''A'', 600), (''B'', 300), (''C'', 100)]"
    by (rule conjunct2)
  show ?thesis
    by (intro conjI s p1 p2 a b)
qed

subsection \<open>\<open>fetchHolders\<close> and \<open>getTokenStats\<close> by cases\<close>

lemma fetchHolders_not_ready:
  "\<not> providerReady env addr \<Longrightarrow> fetchHolders env addr s d = Some Null"
  by (auto simp: providerReady_def fetchHolders_def split: sum.splits)

lemma fetchHolders_ready:
  assumes "providerReady env addr" "totalSupply_call env = Inr supply"
    "getBlockNumber env = Inr e"
    "scanWindows batchSize (queryFilter env) d e s [] = Some h"
  shows "fetchHolders env addr s d
         = Some (Obj (holdersStats env (Math_round (of_int supply / 10 ^ d)) h))"
  using assms by (auto simp: providerReady_def fetchHolders_def split: sum.splits)

lemma batchSize_pos: "0 < batchSize"
  by (simp add: batchSize_def)

lemma fetchHolders_ready_ex:
  assumes "providerReady env addr"
  shows "\<exists>supply e h. totalSupply_call env = Inr supply \<and> getBlockNumber env = Inr e
           \<and> scanWindows batchSize (queryFilter env) d e s [] = Some h
           \<and> fetchHolders env addr s d
              = Some (Obj (holdersStats env (Math_round (of_int supply / 10 ^ d)) h))"
proof -
  from assms obtain raw e where
    se: "totalSupply_call env = Inr raw" "getBlockNumber env = Inr e"
    by (cases "totalSupply_call env"; cases "getBlockNumber env") (auto simp: providerReady_def)
  from scanWindows_total[OF batchSize_pos] obtain h where
    h: "scanWindows batchSize (queryFilter env) d e s [] = Some h" by blast
  from fetchHolders_ready[OF assms se h] se h show ?thesis by blast
qed

lemma getTokenStats_not_ready:
  "\<not> providerReady env addr \<Longrightarrow> getTokenStats env tok addr s d = Some Null"
  by (simp add: getTokenStats_def fetchHolders_not_ready)

lemma getTokenStats_ready:
  assumes "providerReady env addr" "totalSupply_call env = Inr supply"
    "getBlockNumber env = Inr e"
    "scanWindows batchSize (queryFilter env) d e s [] = Some h"
  shows "getTokenStats env tok addr s d
         = Some (Obj (buildResponse env tok
              (holdersStats env (Math_round (of_int supply / 10 ^ d)) h)))"
  by (simp add: getTokenStats_def fetchHolders_ready[OF assms])

lemma getTokenStats_ObjD:
  assumes "getTokenStats env tok addr s d = Some (Obj r)"
  shows "\<exists>supply e h. providerReady env addr \<and> totalSupply_call env = Inr supply \<and> getBlockNumber env = Inr e
           \<and> scanWindows batchSize (queryFilter env) d e s [] = Some h
           \<and> r = buildResponse env tok (holdersStats env (Math_round (of_int supply / 10 ^ d)) h)"
proof (cases "providerReady env addr")
  case True
  from fetchHolders_ready_ex[OF True, of d s] obtain raw e h where
    *: "totalSupply_call env = Inr raw" "getBlockNumber env = Inr e"
       "scanWindows batchSize (queryFilter env) d e s [] = Some h"
       "fetchHolders env addr s d = Some (Obj (holdersStats env (Math_round (of_int raw / 10 ^ d)) h))"
    by blast
  with assms have "r = buildResponse env tok (holdersStats env (Math_round (of_int raw / 10 ^ d)) h)"
    by (simp add: getTokenStats_def)
  with True * show ?thesis by blast
next
  case False
  with assms show ?thesis by (simp add: getTokenStats_not_ready)
qed

subsection \<open>The buckets of \<open>calculateStats\<close>\<close>

lemma rangeIndex_eq: "rangeIndex r n = r * n div 100"
proof -
  have "(of_nat r / 100 :: rat) * of_nat n = of_nat (r * n) / of_nat 100"
    by simp
  then show ?thesis
    unfolding rangeIndex_def by (simp only: floor_divide_of_nat_eq nat_int)
qed

lemma slice_append:
  "i \<le> j \<Longrightarrow> j \<le> k \<Longrightarrow> slice xs i j @ slice xs j k = slice xs i k"
proof -
  assume a: "i \<le> j" "j \<le> k"
  have "take (k - i) (drop i xs) = take ((j - i) + (k - j)) (drop i xs)"
    using a by simp
  also have "\<dots> = take (j - i) (drop i xs) @ take (k - j) (drop (j - i) (drop i xs))"
    by (rule take_add)
  finally show ?thesis using a by (simp add: slice_def)
qed

lemma buckets_concat:
  "concat (map (walletsInRange xs) walletGroups) = take (80 * length xs div 100) xs"
proof -
  let ?n = "length xs"
  let ?i = "\<lambda>r. r * ?n div 100"
  have mono: "?i 0 \<le> ?i 10" "?i 10 \<le> ?i 25" "?i 25 \<le> ?i 50" "?i 50 \<le> ?i 80"
    by (simp_all add: div_le_mono)
  have "concat (map (walletsInRange xs) walletGroups)
        = slice xs (?i 0) (?i 10) @ slice xs (?i 10) (?i 25) @ slice xs (?i 25) (?i 50) @ slice xs (?i 50) (?i 80)"
    by (simp add: walletGroups_def walletsInRange_def rangeIndex_eq)
  also have "\<dots> = slice xs (?i 0) (?i 80)"
    using mono by (simp only: slice_append)
  also have "\<dots> = take (80 * ?n div 100) xs"
    by (simp add: slice_def)
  finally show ?thesis .
qed

lemma length_sortHolders: "length (sortHolders hs) = length hs"
  by (simp add: sortHolders_def)

text \<open>
  Claim C2, as amended. For every holder array (of size 0, 1 or any other), the rank ranges
  of the four buckets are consecutive and disjoint and cover exactly the first
  \<open>80 * n div 100\<close> ranks of the sorted array: the buckets, one after the other, are
  that prefix of the sorted array, so every holder of these ranks is counted in exactly
  one bucket and none twice, and the bucket counts add up to \<open>80 * n div 100\<close>. The
  holders of the remaining ranks are counted in no bucket, and there is such a holder
  whenever the array is not empty.
\<close>

theorem buckets_cover_top_ranks:
  "concat (map (walletsInRange (sortHolders hs)) walletGroups)
     = take (80 * length hs div 100) (sortHolders hs)
   \<and> map walletsCount (groupStats (calculateStats hs))
     = map (\<lambda>g. length (walletsInRange (sortHolders hs) g)) walletGroups
   \<and> sum_list (map walletsCount (groupStats (calculateStats hs))) = 80 * length hs div 100
   \<and> (80 * length hs div 100 < length hs) = (hs \<noteq> [])"
proof -
  have c: "concat (map (walletsInRange (sortHolders hs)) walletGroups)
     = take (80 * length hs div 100) (sortHolders hs)"
    using buckets_concat[of "sortHolders hs"] by (simp add: length_sortHolders)
  have m: "map walletsCount (groupStats (calculateStats hs))
     = map (\<lambda>g. length (walletsInRange (sortHolders hs) g)) walletGroups"
    by (simp add: calculateStats_def Let_def groupStat_def split_def)
  have "sum_list (map walletsCount (groupStats (calculateStats hs)))
        = length (concat (map (walletsInRange (sortHolders hs)) walletGroups))"
    by (simp add: m length_concat comp_def)
  also have "\<dots> = 80 * length hs div 100"
    by (simp add: c length_sortHolders)
  finally have t: "sum_list (map walletsCount (groupStats (calculateStats hs)))
                   = 80 * length hs div 100" .
  have "(80 * length hs div 100 < length hs) = (length hs \<noteq> 0)"
    by arith
  then have o: "(80 * length hs div 100 < length hs) = (hs \<noteq> [])"
    by simp
  show ?thesis
    by (intro conjI c m t o)
qed

text \<open>Claim C2 as stated fails for a single holder: no bucket counts it.\<close>

theorem bucket_partition_counterexample:
  "concat (map (walletsInRange (sortHolders [\<lparr>holder = ''A'', balance = 5\<rparr>])) walletGroups) = []
   \<and> map walletsCount (groupStats (calculateStats [\<lparr>holder = ''A'', balance = 5\<rparr>])) = [0, 0, 0, 0]"
  by code_simp

subsection \<open>The top-10 concentration\<close>

lemma floor_half: "\<lfloor>1 / 2 :: rat\<rfloor> = 0"
  by (rule floor_unique) simp_all

lemma toFixed2_0: "toFixed2 0 = 0"
  by (simp add: toFixed2_def floor_half)

lemma toFixed2_nonneg: "0 \<le> x \<Longrightarrow> 0 \<le> toFixed2 x"
  by (simp add: toFixed2_def)

lemma toFixed2_le_100: "x \<le> 100 \<Longrightarrow> toFixed2 x \<le> 100"
proof (cases "x < 0")
  case True
  then have "0 \<le> \<lfloor>(- x) * 100 + 1 / 2\<rfloor>" by (simp add: zero_le_floor)
  then have "(0::rat) \<le> of_int \<lfloor>(- x) * 100 + 1 / 2\<rfloor> / 100" by simp
  then have "- (of_int \<lfloor>(- x) * 100 + 1 / 2\<rfloor> / 100) \<le> (100::rat)" by linarith
  then show ?thesis using True by (simp only: toFixed2_def if_True)
next
  case False
  assume "x \<le> 100"
  then have "x * 100 + 1 / 2 < 10001" by simp
  then have "\<lfloor>x * 100 + 1 / 2\<rfloor> < 10001" by (simp add: floor_less_iff)
  then have "\<lfloor>x * 100 + 1 / 2\<rfloor> \<le> 10000" by simp
  then have "(of_int \<lfloor>x * 100 + 1 / 2\<rfloor> :: rat) \<le> 10000" 
    by (metis of_int_le_iff of_int_numeral)
  then show ?thesis using False by (simp add: toFixed2_def)
qed

lemma filterHolders_positive: "(a, b) \<in> set (filterHolders h) \<Longrightarrow> 0 < b"
  by (auto simp: filterHolders_def minBalanceThreshold_def)

lemma top_balance_classify: "top_balance (classify env x) = snd x"
  by (simp add: classify_def split: sum.splits)

lemma top_sum_nonneg:
  "0 \<le> sum_list (map top_balance (map (classify env) (take 10 (filterHolders h))))"
proof -
  have "\<And>x. x \<in> set (take 10 (filterHolders h)) \<Longrightarrow> 0 \<le> snd x"
    using filterHolders_positive[of _ _ h] by (metis in_set_takeD less_imp_le prod.collapse)
  then have "0 \<le> sum_list (map snd (take 10 (filterHolders h)))"
    by (intro sum_list_nonneg) auto
  then show ?thesis
    by (simp add: comp_def top_balance_classify)
qed

lemma holdersStats_proportion:
  "hs_topHoldersProportion (holdersStats env n h)
   = (if hs_topHolders (holdersStats env n h) = [] then 0
      else toFixed2 (if n > 0
             then sum_list (map top_balance (hs_topHolders (holdersStats env n h))) / n * 100
             else 0))"
  by (cases "filterHolders h") (simp_all add: holdersStats_def Let_def)

lemma holdersStats_top_nonneg:
  "0 \<le> sum_list (map top_balance (hs_topHolders (holdersStats env n h)))"
  using top_sum_nonneg[of env h] by (simp add: holdersStats_def Let_def)

lemma holdersStats_supply: "hs_totalSupply (holdersStats env n h) = n"
  by (simp add: holdersStats_def Let_def)

lemma buildResponse_tokenStats:
  "totalSupply (tokenStats (buildResponse env tok hs)) = hs_totalSupply hs"
  "topHoldersProportion (tokenStats (buildResponse env tok hs)) = hs_topHoldersProportion hs"
  "topHolders (tokenStats (buildResponse env tok hs)) = hs_topHolders hs"
  "marketCap (tokenStats (buildResponse env tok hs)) = fetchMarketCap env tok"
  by (simp_all add: buildResponse_def Let_def)

text \<open>
  Claim C7, as amended. For every report that \<open>getTokenStats\<close> returns, the top-10
  concentration percentage is at least 0; it is 0 whenever the (rounded) total supply is
  0 or less; and it is at most 100 whenever the total supply is positive and the balances
  of the listed top holders add up to no more than the total supply. Without the last
  condition the percentage is not bounded by 100.
\<close>

theorem concentration_bounds:
  assumes "getTokenStats env tok addr s d = Some (Obj r)"
  shows "0 \<le> topHoldersProportion (tokenStats r)
       \<and> (totalSupply (tokenStats r) \<le> 0 \<longrightarrow> topHoldersProportion (tokenStats r) = 0)
       \<and> (0 < totalSupply (tokenStats r)
           \<and> sum_list (map top_balance (topHolders (tokenStats r))) \<le> totalSupply (tokenStats r)
          \<longrightarrow> topHoldersProportion (tokenStats r) \<le> 100)"
proof -
  from getTokenStats_ObjD[OF assms] obtain n h where
    r: "r = buildResponse env tok (holdersStats env n h)" by blast
  let ?hs = "holdersStats env n h"
  let ?sum = "sum_list (map top_balance (hs_topHolders ?hs))"
  have p: "hs_topHoldersProportion ?hs
           = (if hs_topHolders ?hs = [] then 0
              else toFixed2 (if n > 0 then ?sum / n * 100 else 0))"
    by (rule holdersStats_proportion)
  have nn: "0 \<le> ?sum" by (rule holdersStats_top_nonneg)
  have a: "0 \<le> hs_topHoldersProportion ?hs"
    using nn by (simp add: p toFixed2_nonneg)
  have b: "n \<le> 0 \<longrightarrow> hs_topHoldersProportion ?hs = 0"
    by (simp add: p toFixed2_0)
  have c: "0 < n \<and> ?sum \<le> n \<longrightarrow> hs_topHoldersProportion ?hs \<le> 100"
  proof
    assume h: "0 < n \<and> ?sum \<le> n"
    then have "?sum / n \<le> 1" by (simp add: divide_le_eq)
    then have "?sum / n * 100 \<le> 1 * 100" by (intro mult_right_mono) simp_all
    then have "?sum / n * 100 \<le> 100" by (simp only: mult_1)
    then show "hs_topHoldersProportion ?hs \<le> 100"
      using h by (simp add: p toFixed2_le_100)
  qed
  show ?thesis
    using a b c by (simp add: r buildResponse_tokenStats holdersStats_supply)
qed

text \<open>Claim C7 as stated fails: with 1.25 tokens of total supply, rounded to 1, and the
  whole supply in one wallet, the percentage is 125 while the total supply is positive.\<close>

theorem concentration_counterexample:
  "getTokenStats (chainEnv 125 10 (chainLogs mintChain)) ''tok'' ''0xT'' 0 2
     = Some (Obj (mintReport 1 125))
   \<and> 0 < totalSupply (tokenStats (mintReport 1 125))
   \<and> 100 < topHoldersProportion (tokenStats (mintReport 1 125))"
  by code_simp

text \<open>The bounds at a supply of 2.5 tokens (rounded to 3) and at a supply of 0.\<close>

theorem concentration_bounds_witness:
  "getTokenStats (chainEnv 250 10 (chainLogs mintChain)) ''tok'' ''0xT'' 0 2
     = Some (Obj (mintReport 3 (4167 / 100)))
   \<and> 0 < totalSupply (tokenStats (mintReport 3 (4167 / 100)))
   \<and> sum_list (map top_balance (topHolders (tokenStats (mintReport 3 (4167 / 100)))))
       \<le> totalSupply (tokenStats (mintReport 3 (4167 / 100)))
   \<and> 0 \<le> topHoldersProportion (tokenStats (mintReport 3 (4167 / 100)))
   \<and> topHoldersProportion (tokenStats (mintReport 3 (4167 / 100))) \<le> 100
   \<and> getTokenStats (chainEnv 0 10 (chainLogs mintChain)) ''tok'' ''0xT'' 0 2
     = Some (Obj (mintReport 0 0))
   \<and> totalSupply (tokenStats (mintReport 0 0)) \<le> 0
   \<and> topHoldersProportion (tokenStats (mintReport 0 0)) = 0"
proof -
  have a: "getTokenStats (chainEnv 250 10 (chainLogs mintChain)) ''tok'' ''0xT'' 0 2
     = Some (Obj (mintReport 3 (4167 / 100)))"
    by code_simp
  have b: "getTokenStats (chainEnv 0 10 (chainLogs mintChain)) ''tok'' ''0xT'' 0 2
     = Some (Obj (mintReport 0 0))"
    by code_simp
  have pa: "0 < totalSupply (tokenStats (mintReport 3 (4167 / 100)))
       \<and> sum_list (map top_balance (topHolders (tokenStats (mintReport 3 (4167 / 100)))))
       \<le> totalSupply (tokenStats (mintReport 3 (4167 / 100)))"
    by (simp add: mintReport_def)
  have pb: "totalSupply (tokenStats (mintReport 0 0)) \<le> 0"
    by (simp add: mintReport_def)
  from concentration_bounds[OF a] pa
  have ca: "0 \<le> topHoldersProportion (tokenStats (mintReport 3 (4167 / 100)))
       \<and> topHoldersProportion (tokenStats (mintReport 3 (4167 / 100))) \<le> 100"
    by blast
  from concentration_bounds[OF b] pb
  have cb: "topHoldersProportion (tokenStats (mintReport 0 0)) = 0"
    by blast
  show ?thesis using a b pa pb ca cb by blast
qed

subsection \<open>The total supply of the report\<close>





subsection \<open>The empty result\<close>

lemma calculateStats_Nil:
  "calculateStats [] = \<lparr>totalWallets = 0, averageBalance = 0, medianBalance = 0,
                         groupStats = noBuckets\<rparr>"
  by code_simp

lemma holdersStats_empty:
  "filterHolders h = [] \<Longrightarrow>
   holdersStats env n h = \<lparr>hs_totalSupply = n, hs_topHoldersProportion = 0,
                             hs_topHolders = [], filteredHolders = []\<rparr>"
  by (simp add: holdersStats_def)

text \<open>
  Claim C6. When the scan completes (the credential, the constructors, the total supply
  and the block height succeeded and the loop returned a ledger) and no holder passes
  the dust filter, \<open>getTokenStats\<close> returns a report, not \<open>null\<close>: the fetched total
  supply, no top holders, a top-10 percentage of 0, and statistics of zero wallets.
\<close>

theorem empty_result_is_report:
  assumes "providerReady env addr"
    and "totalSupply_call env = Inr supply"
    and "getBlockNumber env = Inr endBlock"
    and "scanWindows batchSize (queryFilter env) d endBlock s [] = Some h"
    and "filterHolders h = []"
  shows "getTokenStats env tok addr s d
         = Some (Obj \<lparr>tokenStats =
                        \<lparr>totalSupply = Math_round (of_int supply / 10 ^ d),
                         marketCap = fetchMarketCap env tok,
                         topHoldersProportion = 0, topHolders = []\<rparr>,
                      stats =
                        \<lparr>totalWallets = 0, averageBalance = 0, medianBalance = 0,
                         groupStats = noBuckets\<rparr>\<rparr>)"
  unfolding getTokenStats_ready[OF assms(1-4)] holdersStats_empty[OF assms(5)]
  by (simp add: buildResponse_def calculateStats_Nil)

text \<open>A scan whose only receiver holds 0.01 tokens, which is not above the threshold.\<close>

theorem empty_result_is_report_witness:
  "providerReady (chainEnv 1000 10 (chainLogs dustChain)) ''0xT''
   \<and> totalSupply_call (chainEnv 1000 10 (chainLogs dustChain)) = Inr 1000
   \<and> getBlockNumber (chainEnv 1000 10 (chainLogs dustChain)) = Inr 10
   \<and> scanWindows batchSize (queryFilter (chainEnv 1000 10 (chainLogs dustChain))) 2 10 0 []
     = Some [(zeroAddress, - (1 / 100)), (''A'', 1 / 100)]
   \<and> filterHolders [(zeroAddress, - (1 / 100)), (''A'', 1 / 100)] = []
   \<and> getTokenStats (chainEnv 1000 10 (chainLogs dustChain)) ''tok'' ''0xT'' 0 2
     = Some (Obj \<lparr>tokenStats =
                    \<lparr>totalSupply = 10, marketCap = None,
                     topHoldersProportion = 0, topHolders = []\<rparr>,
                  stats =
                    \<lparr>totalWallets = 0, averageBalance = 0, medianBalance = 0,
                     groupStats = noBuckets\<rparr>\<rparr>)"
proof -
  let ?env = "chainEnv 1000 10 (chainLogs dustChain)"
  have a: "providerReady ?env ''0xT''" by code_simp
  have b: "totalSupply_call ?env = Inr 1000" by (simp add: chainEnv_def)
  have c: "getBlockNumber ?env = Inr 10" by (simp add: chainEnv_def)
  have d: "scanWindows batchSize (queryFilter ?env) 2 10 0 []
           = Some [(zeroAddress, - (1 / 100)), (''A'', 1 / 100)]"
    by code_simp
  have e: "filterHolders [(zeroAddress, - (1 / 100)), (''A'', 1 / 100)] = []"
    by code_simp
  have m: "Math_round (of_int 1000 / 10 ^ 2) = 10" by code_simp
  have f: "fetchMarketCap ?env ''tok'' = None" by code_simp
  note r = empty_result_is_report[OF a b c d e, of "''tok''", unfolded m f]
  show ?thesis by (intro conjI a b c d e r)
qed

subsection \<open>Totality of \<open>getTokenStats\<close>\<close>



subsection \<open>The end-to-end scenario\<close>

text \<open>
  Claim C4. For the three events (mint 1000 to A, 400 from A to B, 100 from B to C) with
  0 decimals and a total supply of 1000, the final balances are A = 600, B = 300 and
  C = 100, and the report has 3 wallets, an average of 333.33, a median of 300 and a
  top-10 concentration of 100.
\<close>

theorem end_to_end_scenario:
  "scanWindows batchSize (queryFilter scenarioEnv) 0 2000000 0 []
     = Some [(zeroAddress, - 1000), (''A'', 600), (''B'', 300), (''C'', 100)]
   \<and> getTokenStats scenarioEnv ''tok'' ''0xT'' 0 0
     = Some (Obj \<lparr>tokenStats =
          \<lparr>totalSupply = 1000, marketCap = None, topHoldersProportion = 100,
             topHolders =
               [\<lparr>address = ''A'', top_balance = 600, type_of = Wallet\<rparr>,
                \<lparr>address = ''B'', top_balance = 300, type_of = Wallet\<rparr>,
                \<lparr>address = ''C'', top_balance = 100, type_of = Wallet\<rparr>]\<rparr>,
          stats =
            \<lparr>totalWallets = 3, averageBalance = 33333 / 100,
               medianBalance = 300,
               groupStats =
                 [\<lparr>percentage = ''0-10%'', walletsCount = 0,
                     walletsHoldingPercentage = 0, cumulativeBalance = 0\<rparr>,
                  \<lparr>percentage = ''10-25%'', walletsCount = 0,
                     walletsHoldingPercentage = 0, cumulativeBalance = 0\<rparr>,
                  \<lparr>percentage = ''25-50%'', walletsCount = 1,
                     walletsHoldingPercentage = 60, cumulativeBalance = 600\<rparr>,
                  \<lparr>percentage = ''50-80%'', walletsCount = 1,
                     walletsHoldingPercentage = 30, cumulativeBalance = 300\<rparr>]\<rparr>\<rparr>)"
  by code_simp

subsection \<open>Failed window requests\<close>

lemma processWindow_absorbErrors:
  "processWindow (absorbErrors q) d f t h = processWindow q d f t h"
  by (simp add: processWindow_def absorbErrors_def processEvents_def split: sum.splits)

lemma scanWindows_absorbErrors:
  assumes "0 < b"
  shows "scanWindows b (absorbErrors q) d e f h = scanWindows b q d e f h"
proof (induction "nat (e + 1 - f)" arbitrary: f h rule: less_induct)
  case less
  show ?case
  proof (cases "f \<le> e")
    case True
    have m: "nat (e + 1 - (f + b)) < nat (e + 1 - f)"
      using True assms by linarith
    show ?thesis
      using less[OF m] True by (simp add: scan_step processWindow_absorbErrors)
  next
    case False
    then show ?thesis by (simp add: scan_done)
  qed
qed

lemma classify_queryFilter: "classify (env\<lparr>queryFilter := q\<rparr>) = classify env"
  by (rule ext) (simp add: classify_def)

lemma holdersStats_queryFilter:
  "holdersStats (env\<lparr>queryFilter := q\<rparr>) n h = holdersStats env n h"
  by (simp add: holdersStats_def classify_queryFilter)

lemma buildResponse_queryFilter:
  "buildResponse (env\<lparr>queryFilter := q\<rparr>) tok hs = buildResponse env tok hs"
  by (simp add: buildResponse_def fetchMarketCap_def)

lemma getTokenStats_absorbErrors:
  "getTokenStats (env\<lparr>queryFilter := absorbErrors (queryFilter env)\<rparr>) tok addr s d
   = getTokenStats env tok addr s d"
  by (simp add: getTokenStats_def fetchHolders_def scanWindows_absorbErrors[OF batchSize_pos]
      holdersStats_queryFilter buildResponse_queryFilter
      split: sum.splits option.splits nullable.splits)

lemma getTokenStats_Null_iff:
  "(getTokenStats env tok addr s d = Some Null) = (\<not> providerReady env addr)"
proof (cases "providerReady env addr")
  case True
  from fetchHolders_ready_ex[OF True, of d s] obtain hs
    where "fetchHolders env addr s d = Some (Obj hs)" by blast
  then show ?thesis using True by (simp add: getTokenStats_def)
next
  case False
  then show ?thesis by (simp add: getTokenStats_not_ready)
qed

text \<open>
  Claim C3, as amended. \<open>getTokenStats\<close> returns \<open>null\<close> exactly when the credential is
  missing or a constructor, the total supply or the block height fails. Otherwise it
  returns a report, and a window whose request fails counts as a window without events:
  the result is the one for the provider whose failed answers are replaced by empty ones.
  When the provider answers every window from the chain, the report is computed from
  every event of \<open>startBlock..endBlock\<close>.
\<close>

theorem failed_windows_are_dropped:
  "getTokenStats env tok addr s d
     = getTokenStats (env\<lparr>queryFilter := absorbErrors (queryFilter env)\<rparr>) tok addr s d
   \<and> (getTokenStats env tok addr s d = Some Null) = (\<not> providerReady env addr)
   \<and> (providerReady env addr \<and> sorted (map fst chain) \<and> queryFilter env = chainLogs chain
        \<and> totalSupply_call env = Inr supply \<and> getBlockNumber env = Inr endBlock
      \<longrightarrow> getTokenStats env tok addr s d
          = Some (Obj (buildResponse env tok
               (holdersStats env (Math_round (of_int supply / 10 ^ d))
                  (processEvents d [] (eventsIn chain s endBlock))))))"
proof (intro conjI impI)
  show "getTokenStats env tok addr s d
     = getTokenStats (env\<lparr>queryFilter := absorbErrors (queryFilter env)\<rparr>) tok addr s d"
    by (simp only: getTokenStats_absorbErrors)
next
  show "(getTokenStats env tok addr s d = Some Null) = (\<not> providerReady env addr)"
    by (rule getTokenStats_Null_iff)
next
  assume a: "providerReady env addr \<and> sorted (map fst chain) \<and> queryFilter env = chainLogs chain
        \<and> totalSupply_call env = Inr supply \<and> getBlockNumber env = Inr endBlock"
  then have so: "sorted (map fst chain)" and q: "queryFilter env = chainLogs chain"
    by simp_all
  have scan: "scanWindows batchSize (queryFilter env) d endBlock s []
              = Some (processEvents d [] (eventsIn chain s endBlock))"
    unfolding q by (rule scanWindows_chainLogs[OF so batchSize_pos])
  from a have r: "providerReady env addr" and ts: "totalSupply_call env = Inr supply"
    and bn: "getBlockNumber env = Inr endBlock"
    by simp_all
  show "getTokenStats env tok addr s d
          = Some (Obj (buildResponse env tok
               (holdersStats env (Math_round (of_int supply / 10 ^ d))
                  (processEvents d [] (eventsIn chain s endBlock)))))"
    by (rule getTokenStats_ready[OF r ts bn scan])
qed

text \<open>The complete report of the two-window chain.\<close>

theorem failed_windows_are_dropped_witness:
  "providerReady wholeEnv ''0xT'' \<and> sorted (map fst twoWindowChain)
   \<and> queryFilter wholeEnv = chainLogs twoWindowChain
   \<and> totalSupply_call wholeEnv = Inr 1000 \<and> getBlockNumber wholeEnv = Inr 150000
   \<and> getTokenStats wholeEnv ''tok'' ''0xT'' 0 0
     = Some (Obj (buildResponse wholeEnv ''tok''
          (holdersStats wholeEnv 1000 [(zeroAddress, - 1000), (''A'', 600), (''B'', 400)])))"
proof -
  have a: "providerReady wholeEnv ''0xT''" by code_simp
  have b: "sorted (map fst twoWindowChain)" by (simp add: twoWindowChain_def)
  have c: "queryFilter wholeEnv = chainLogs twoWindowChain"
    by (simp add: wholeEnv_def chainEnv_def)
  have d: "totalSupply_call wholeEnv = Inr 1000" "getBlockNumber wholeEnv = Inr 150000"
    by (simp_all add: wholeEnv_def chainEnv_def)
  have m: "Math_round (of_int 1000 / 10 ^ 0) = 1000" by code_simp
  have e: "processEvents 0 [] (eventsIn twoWindowChain 0 150000)
           = [(zeroAddress, - 1000), (''A'', 600), (''B'', 400)]"
    by code_simp
  from failed_windows_are_dropped[of wholeEnv "''tok''" "''0xT''" 0 0 twoWindowChain 1000 150000]
    a b c d
  have "getTokenStats wholeEnv ''tok'' ''0xT'' 0 0
     = Some (Obj (buildResponse wholeEnv ''tok''
          (holdersStats wholeEnv (Math_round (of_int 1000 / 10 ^ 0))
             (processEvents 0 [] (eventsIn twoWindowChain 0 150000)))))"
    by blast
  then have r: "getTokenStats wholeEnv ''tok'' ''0xT'' 0 0
     = Some (Obj (buildResponse wholeEnv ''tok''
          (holdersStats wholeEnv 1000 [(zeroAddress, - 1000), (''A'', 600), (''B'', 400)])))"
    unfolding m e .
  show ?thesis by (intro conjI a b c d r)
qed

text \<open>Claim C3 as stated fails: when the request for the first window fails, a report is
  returned all the same, without the mint of that window; it differs from the report of
  the same chain with every window fetched.\<close>

theorem partial_report_counterexample:
  "queryFilter flakyEnv 0 99999 = Inl (Failure ''timeout'')
   \<and> queryFilter wholeEnv 0 99999 = Inr [transfer zeroAddress ''A'' 1000]
   \<and> queryFilter flakyEnv 100000 150000 = queryFilter wholeEnv 100000 150000
   \<and> getTokenStats wholeEnv ''tok'' ''0xT'' 0 0
     = Some (Obj \<lparr>tokenStats =
          \<lparr>totalSupply = 1000, marketCap = None, topHoldersProportion = 100,
           topHolders =
             [\<lparr>address = ''A'', top_balance = 600, type_of = Wallet\<rparr>,
              \<lparr>address = ''B'', top_balance = 400, type_of = Wallet\<rparr>]\<rparr>,
          stats =
            \<lparr>totalWallets = 2, averageBalance = 500, medianBalance = 500,
             groupStats =
               [\<lparr>percentage = ''0-10%'', walletsCount = 0,
                 walletsHoldingPercentage = 0, cumulativeBalance = 0\<rparr>,
                \<lparr>percentage = ''10-25%'', walletsCount = 0,
                 walletsHoldingPercentage = 0, cumulativeBalance = 0\<rparr>,
                \<lparr>percentage = ''25-50%'', walletsCount = 1,
                 walletsHoldingPercentage = 60, cumulativeBalance = 600\<rparr>,
                \<lparr>percentage = ''50-80%'', walletsCount = 0,
                 walletsHoldingPercentage = 0, cumulativeBalance = 0\<rparr>]\<rparr>\<rparr>)
   \<and> getTokenStats flakyEnv ''tok'' ''0xT'' 0 0
     = Some (Obj \<lparr>tokenStats =
          \<lparr>totalSupply = 1000, marketCap = None, topHoldersProportion = 40,
           topHolders = [\<lparr>address = ''B'', top_balance = 400, type_of = Wallet\<rparr>]\<rparr>,
          stats =
            \<lparr>totalWallets = 1, averageBalance = 400, medianBalance = 400,
             groupStats = noBuckets\<rparr>\<rparr>)"
  by code_simp

subsection \<open>Rate limiting\<close>




end
